theory Spec2Isabelle
  imports Main "HOL-Library.Word"
begin

section \<open>Values, text and bytes\<close>

text \<open>
  The class \<^verbatim>\<open>flix\<close> of \<^verbatim>\<open>dialogue_relink/flix.py\<close> keeps a login session and signs
  requests. Its methods raise Python exceptions; the model returns them as values.
  \<open>JSONDecodeError\<close> is what \<^verbatim>\<open>json.loads\<close> raises on a body that is not JSON.
\<close>

datatype pyerror = TypeError | ValueError | KeyError | AttributeError | JSONDecodeError

type_synonym byte = "8 word"
type_synonym bytes = "byte list"

text \<open>
  The argument \<^verbatim>\<open>content\<close> of \<^verbatim>\<open>__fn_sign\<close> is declared \<^verbatim>\<open>object\<close>, and the parsed body of
  the authentication response is whatever \<^verbatim>\<open>json.loads\<close> returns. Both are values of
  \<open>pyval\<close>: \<^verbatim>\<open>None\<close>, booleans, integers, \<^verbatim>\<open>str\<close>, \<^verbatim>\<open>bytes\<close>, lists and dictionaries (kept
  in insertion order). Floats are left out. Text is a \<open>string\<close>, so a character is a code
  point below 256. Upper-casing leaves that range for two characters, so the text that
  \<^verbatim>\<open>__fn_sign\<close> builds is a list of code points below 2048, the ones that UTF-8 writes
  in one or two bytes; \<open>text_of\<close> reads a \<open>string\<close> as such a list.
\<close>

type_synonym codepoint = "11 word"
type_synonym codepoints = "codepoint list"

definition text_of :: "string \<Rightarrow> codepoints" where
  "text_of s = map of_char s"

datatype pyval =
    PNone
  | PBool bool
  | PInt int
  | PStr string
  | PBytes bytes
  | PList "pyval list"
  | PDict "(pyval \<times> pyval) list"

text \<open>The truth value Python gives an object in \<^verbatim>\<open>if content:\<close>.\<close>

fun truthy :: "pyval \<Rightarrow> bool" where
  "truthy PNone = False"
| "truthy (PBool b) = b"
| "truthy (PInt i) = (i \<noteq> 0)"
| "truthy (PStr s) = (s \<noteq> [])"
| "truthy (PBytes b) = (b \<noteq> [])"
| "truthy (PList xs) = (xs \<noteq> [])"
| "truthy (PDict kvs) = (kvs \<noteq> [])"

text \<open>
  \<^verbatim>\<open>s.encode('utf-8')\<close>: one byte for a code point below 128, two bytes for the others
  below 256.
\<close>

definition utf8_char :: "char \<Rightarrow> bytes" where
  "utf8_char c =
     (let n = (of_char c :: nat)
      in if n < 128 then [of_nat n]
         else [of_nat (192 + n div 64), of_nat (128 + n mod 64)])"

definition utf8_encode :: "string \<Rightarrow> bytes" where
  "utf8_encode s = concat (map utf8_char s)"

text \<open>The same encoding for a list of code points below 2048.\<close>

definition utf8_point :: "codepoint \<Rightarrow> bytes" where
  "utf8_point cp =
     (let n = unat cp
      in if n < 128 then [of_nat n]
         else [of_nat (192 + n div 64), of_nat (128 + n mod 64)])"

definition utf8_text :: "codepoints \<Rightarrow> bytes" where
  "utf8_text t = concat (map utf8_point t)"

text \<open>
  \<^verbatim>\<open>str.upper\<close> on a text of code points below 256. The letters \<^verbatim>\<open>a\<close> to \<^verbatim>\<open>z\<close> and the
  accented letters from U+00E0 to U+00FE (without the division sign U+00F7) move down
  by 32; the sharp s U+00DF becomes \<^verbatim>\<open>SS\<close>; the micro sign U+00B5 becomes U+039C and
  the y with diaeresis U+00FF becomes U+0178; every other character is kept.
\<close>

definition upper_char :: "char \<Rightarrow> codepoints" where
  "upper_char c =
     (let n = (of_char c :: nat)
      in if 0x61 \<le> n \<and> n \<le> 0x7A then [of_nat (n - 32)]
         else if n = 0xB5 then [0x39C]
         else if n = 0xDF then [0x53, 0x53]
         else if 0xE0 \<le> n \<and> n \<le> 0xFE \<and> n \<noteq> 0xF7 then [of_nat (n - 32)]
         else if n = 0xFF then [0x178]
         else [of_nat n])"

definition upper :: "string \<Rightarrow> codepoints" where
  "upper s = concat (map upper_char s)"

text \<open>
  \<^verbatim>\<open>s.split(sep)\<close> for a separator of one character. The result is never empty, so
  \<^verbatim>\<open>s.split(sep)[0]\<close> always exists: it is \<open>first_piece\<close>.
\<close>

fun split :: "char \<Rightarrow> string \<Rightarrow> string list" where
  "split sep [] = [[]]"
| "split sep (c # cs) =
     (if c = sep then [] # split sep cs
      else (case split sep cs of
              [] \<Rightarrow> [[c]]
            | w # ws \<Rightarrow> (c # w) # ws))"

definition first_piece :: "char \<Rightarrow> string \<Rightarrow> string" where
  "first_piece sep s = (case split sep s of [] \<Rightarrow> [] | w # ws \<Rightarrow> w)"

text \<open>Decimal digits: \<^verbatim>\<open>str(n)\<close> and \<^verbatim>\<open>'%0wd' % n\<close> for a natural number.\<close>

definition digit_char :: "nat \<Rightarrow> char" where
  "digit_char d = ''0123456789'' ! (d mod 10)"

fun str_nat :: "nat \<Rightarrow> string" where
  "str_nat n = (if n < 10 then [digit_char n] else str_nat (n div 10) @ [digit_char (n mod 10)])"

definition str_int :: "int \<Rightarrow> string" where
  "str_int i = (if i < 0 then CHR ''-'' # str_nat (nat (- i)) else str_nat (nat i))"

definition zero_pad :: "nat \<Rightarrow> nat \<Rightarrow> string" where
  "zero_pad w n = (let s = str_nat n in replicate (w - length s) CHR ''0'' @ s)"

definition hex_char :: "nat \<Rightarrow> char" where
  "hex_char d = ''0123456789abcdef'' ! (d mod 16)"

text \<open>
  \<^verbatim>\<open>binascii.hexlify\<close>: two lower-case hexadecimal digits for each byte, as bytes again.
\<close>

definition hex_byte :: "nat \<Rightarrow> byte" where
  "hex_byte d = (if d mod 16 < 10 then of_nat (48 + d mod 16) else of_nat (87 + d mod 16))"

definition hexlify :: "bytes \<Rightarrow> bytes" where
  "hexlify bs = concat (map (\<lambda>b. [hex_byte (unat b div 16), hex_byte (unat b mod 16)]) bs)"

text \<open>
  \<^verbatim>\<open>base64.b64encode(bs).decode('UTF-8')\<close>: the standard alphabet with padding. The
  encoder's output is ASCII, so decoding it cannot fail and the text is returned at once.
\<close>

definition b64_char :: "nat \<Rightarrow> char" where
  "b64_char k =
     ''ABCDEFGHIJKLMNOPQRSTUVWXYZabcdefghijklmnopqrstuvwxyz0123456789+/'' ! (k mod 64)"

fun b64encode :: "bytes \<Rightarrow> string" where
  "b64encode [] = []"
| "b64encode [a] =
     (let n = unat a * 65536
      in [b64_char (n div 262144), b64_char (n div 4096), CHR ''='', CHR ''=''])"
| "b64encode [a, b] =
     (let n = unat a * 65536 + unat b * 256
      in [b64_char (n div 262144), b64_char (n div 4096), b64_char (n div 64), CHR ''=''])"
| "b64encode (a # b # c # rest) =
     (let n = unat a * 65536 + unat b * 256 + unat c
      in [b64_char (n div 262144), b64_char (n div 4096), b64_char (n div 64), b64_char n]
         @ b64encode rest)"

section \<open>The library functions the class calls\<close>

subsection \<open>\<^verbatim>\<open>json.dumps\<close>\<close>

text \<open>
  \<^verbatim>\<open>json.dumps(obj)\<close> with its default arguments: items separated by a comma and a
  space, a colon and a space after each key, text escaped to ASCII. A key is text, a
  boolean, \<^verbatim>\<open>None\<close> or an integer; any other key, and a value of type \<^verbatim>\<open>bytes\<close>, raises
  \<^verbatim>\<open>TypeError\<close>.
\<close>

definition json_chr :: "char \<Rightarrow> string" where
  "json_chr c =
     (let n = (of_char c :: nat)
      in if n = 0x22 then [CHR 0x5C, CHR 0x22]
         else if n = 0x5C then [CHR 0x5C, CHR 0x5C]
         else if n = 0x0A then [CHR 0x5C, CHR ''n'']
         else if n = 0x0D then [CHR 0x5C, CHR ''r'']
         else if n = 0x09 then [CHR 0x5C, CHR ''t'']
         else if n = 0x08 then [CHR 0x5C, CHR ''b'']
         else if n = 0x0C then [CHR 0x5C, CHR ''f'']
         else if n < 32 \<or> 126 < n
           then [CHR 0x5C, CHR ''u'', CHR ''0'', CHR ''0'', hex_char (n div 16), hex_char n]
         else [c])"

definition json_str :: "string \<Rightarrow> string" where
  "json_str s = CHR 0x22 # concat (map json_chr s) @ [CHR 0x22]"

fun json_key :: "pyval \<Rightarrow> pyerror + string" where
  "json_key (PStr s) = Inr s"
| "json_key (PBool b) = Inr (if b then ''true'' else ''false'')"
| "json_key PNone = Inr ''null''"
| "json_key (PInt i) = Inr (str_int i)"
| "json_key _ = Inl TypeError"

text \<open>The first exception of a list of results, or all the results.\<close>

fun collect :: "(pyerror + 'a) list \<Rightarrow> pyerror + 'a list" where
  "collect [] = Inr []"
| "collect (Inl e # rs) = Inl e"
| "collect (Inr x # rs) = (case collect rs of Inl e \<Rightarrow> Inl e | Inr xs \<Rightarrow> Inr (x # xs))"

fun join :: "string \<Rightarrow> string list \<Rightarrow> string" where
  "join sep [] = []"
| "join sep [s] = s"
| "join sep (s # t # ss) = s @ sep @ join sep (t # ss)"

fun json_dumps :: "pyval \<Rightarrow> pyerror + string" where
  "json_dumps PNone = Inr ''null''"
| "json_dumps (PBool b) = Inr (if b then ''true'' else ''false'')"
| "json_dumps (PInt i) = Inr (str_int i)"
| "json_dumps (PStr s) = Inr (json_str s)"
| "json_dumps (PBytes b) = Inl TypeError"
| "json_dumps (PList xs) =
     (case collect (map json_dumps xs) of
        Inl e \<Rightarrow> Inl e
      | Inr ss \<Rightarrow> Inr (''['' @ join '', '' ss @ '']''))"
| "json_dumps (PDict kvs) =
     (case collect (map (\<lambda>kv.
              case json_key (fst kv) of
                Inl e \<Rightarrow> Inl e
              | Inr k \<Rightarrow> (case json_dumps (snd kv) of
                            Inl e \<Rightarrow> Inl e
                          | Inr v \<Rightarrow> Inr (json_str k @ '': '' @ v))) kvs) of
        Inl e \<Rightarrow> Inl e
      | Inr ss \<Rightarrow> Inr (''{'' @ join '', '' ss @ ''}''))"

subsection \<open>\<^verbatim>\<open>hashlib\<close> and \<^verbatim>\<open>hmac\<close>\<close>

text \<open>
  The two digest functions are parameters of the model: \<open>md5_hexdigest bs\<close> stands for
  \<^verbatim>\<open>hashlib.md5(bs).hexdigest()\<close> and \<open>hmac_sha256 key msg\<close> for
  \<^verbatim>\<open>hmac.new(key, msg, digestmod=hashlib.sha256).digest()\<close>. Every theorem holds for
  whatever functions they are.
\<close>

record digests =
  md5_hexdigest :: "bytes \<Rightarrow> string"
  hmac_sha256 :: "bytes \<Rightarrow> bytes \<Rightarrow> bytes"

text \<open>
  \<^verbatim>\<open>hashlib.md5(x).hexdigest()\<close> for an object \<open>x\<close>: \<^verbatim>\<open>hashlib.md5\<close> hashes bytes and
  raises \<^verbatim>\<open>TypeError\<close> on anything else, text included (text has to be encoded first).
\<close>

fun hashlib_md5_hexdigest :: "digests \<Rightarrow> pyval \<Rightarrow> pyerror + string" where
  "hashlib_md5_hexdigest L (PBytes bs) = Inr (md5_hexdigest L bs)"
| "hashlib_md5_hexdigest L _ = Inl TypeError"

subsection \<open>\<^verbatim>\<open>datetime\<close>\<close>

text \<open>
  A naive \<^verbatim>\<open>datetime\<close> is a point of the proleptic Gregorian calendar with microsecond
  resolution. The model counts the microseconds from the start of day 0, where day 1 is
  0001-01-01 as in \<^verbatim>\<open>date.toordinal\<close>; adding a \<^verbatim>\<open>timedelta\<close> and comparing two values is
  then integer arithmetic. The limits of the library's range (years 1 to 9999) are checked
  where a value is built from its fields, and not on addition.
\<close>

type_synonym datetime = int
type_synonym timedelta = int

definition timedelta_hours :: "int \<Rightarrow> timedelta" where
  "timedelta_hours h = h * 3600 * 1000000"


definition is_leap :: "int \<Rightarrow> bool" where
  "is_leap y = (y mod 4 = 0 \<and> (y mod 100 \<noteq> 0 \<or> y mod 400 = 0))"

definition days_before_year :: "int \<Rightarrow> int" where
  "days_before_year year = (let y = year - 1 in y * 365 + y div 4 - y div 100 + y div 400)"

definition DAYS_IN_MONTH :: "int list" where
  "DAYS_IN_MONTH = [-1, 31, 28, 31, 30, 31, 30, 31, 31, 30, 31, 30, 31]"

definition DAYS_BEFORE_MONTH :: "int list" where
  "DAYS_BEFORE_MONTH = [-1, 0, 31, 59, 90, 120, 151, 181, 212, 243, 273, 304, 334]"

definition days_in_month :: "int \<Rightarrow> int \<Rightarrow> int" where
  "days_in_month year month =
     (if month = 2 \<and> is_leap year then 29 else DAYS_IN_MONTH ! nat month)"

definition days_before_month :: "int \<Rightarrow> int \<Rightarrow> int" where
  "days_before_month year month =
     DAYS_BEFORE_MONTH ! nat month + (if month > 2 \<and> is_leap year then 1 else 0)"

definition ymd2ord :: "int \<Rightarrow> int \<Rightarrow> int \<Rightarrow> int" where
  "ymd2ord year month day = days_before_year year + days_before_month year month + day"

definition ord2ymd :: "int \<Rightarrow> int \<times> int \<times> int" where
  "ord2ymd ordinal =
     (let n = ordinal - 1;
          n400 = n div 146097; n = n mod 146097;
          n100 = n div 36524; n = n mod 36524;
          n4 = n div 1461; n = n mod 1461;
          n1 = n div 365; n = n mod 365;
          year = n400 * 400 + 1 + n100 * 100 + n4 * 4 + n1
      in if n1 = 4 \<or> n100 = 4 then (year - 1, 12, 31)
         else
           let leapyear = (n1 = 3 \<and> (n4 \<noteq> 24 \<or> n100 = 3));
               month = (n + 50) div 32;
               preceding = DAYS_BEFORE_MONTH ! nat month
                             + (if month > 2 \<and> leapyear then 1 else 0)
           in if preceding > n
              then let month' = month - 1;
                       preceding' = preceding - (DAYS_IN_MONTH ! nat month'
                                       + (if month' = 2 \<and> leapyear then 1 else 0))
                   in (year, month', n - preceding' + 1)
              else (year, month, n - preceding + 1))"

text \<open>
  \<^verbatim>\<open>datetime(year, month, day, hour, minute, second, microsecond)\<close>, which raises
  \<^verbatim>\<open>ValueError\<close> on a field out of range.
\<close>

definition datetime_new :: "int \<Rightarrow> int \<Rightarrow> int \<Rightarrow> int \<Rightarrow> int \<Rightarrow> int \<Rightarrow> int \<Rightarrow> pyerror + datetime" where
  "datetime_new year month day hour minute second microsecond =
     (if 1 \<le> year \<and> year \<le> 9999 \<and> 1 \<le> month \<and> month \<le> 12
         \<and> 1 \<le> day \<and> day \<le> days_in_month year month
         \<and> 0 \<le> hour \<and> hour \<le> 23 \<and> 0 \<le> minute \<and> minute \<le> 59
         \<and> 0 \<le> second \<and> second \<le> 59 \<and> 0 \<le> microsecond \<and> microsecond \<le> 999999
      then Inr (((ymd2ord year month day * 24 + hour) * 60 + minute) * 60000000
                  + second * 1000000 + microsecond)
      else Inl ValueError)"

text \<open>
  The text \<^verbatim>\<open>YYYY-MM-DDTHH:MM:SS\<close> of a date and a time of day, each field padded with
  zeros. \<^verbatim>\<open>dt.isoformat()\<close> of a naive value is that text for the fields of the value,
  and the six digits of the microseconds after a dot when they are not zero.
\<close>

definition iso_text :: "nat \<Rightarrow> nat \<Rightarrow> nat \<Rightarrow> nat \<Rightarrow> nat \<Rightarrow> nat \<Rightarrow> string" where
  "iso_text year month day hour minute second =
     zero_pad 4 year @ ''-'' @ zero_pad 2 month @ ''-'' @ zero_pad 2 day
     @ ''T'' @ zero_pad 2 hour @ '':'' @ zero_pad 2 minute @ '':'' @ zero_pad 2 second"

definition isoformat :: "datetime \<Rightarrow> string" where
  "isoformat t =
     (let us = t mod 1000000; s = t div 1000000;
          second = s mod 60; m = s div 60;
          minute = m mod 60; h = m div 60;
          hour = h mod 24; ordinal = h div 24
      in case ord2ymd ordinal of (year, month, day) \<Rightarrow>
           iso_text (nat year) (nat month) (nat day) (nat hour) (nat minute) (nat second)
           @ (if us \<noteq> 0 then ''.'' @ zero_pad 6 (nat us) else []))"




text \<open>
  \<^verbatim>\<open>datetime.strptime(s, '%Y-%m-%dT%H:%M:%S')\<close>. The library turns the format into a
  regular expression, matched from the start of the text without regard to case:
  \<^verbatim>\<open>(\d\d\d\d)-(1[0-2]|0[1-9]|[1-9])-(3[0-1]|[1-2]\d|0[1-9]|[1-9]| [1-9])T\<close>
  \<^verbatim>\<open>(2[0-3]|[0-1]\d|\d):([0-5]\d|\d):(6[0-1]|[0-5]\d|\d)\<close>.
  It raises \<^verbatim>\<open>ValueError\<close> when the expression does not match, when text remains after
  the match, and when the fields are not a date and a time. A group of the expression is
  a list of alternatives, tried in order, and an alternative is a list of character
  classes.
\<close>

type_synonym char_class = "char \<Rightarrow> bool"

definition between :: "char \<Rightarrow> char \<Rightarrow> char_class" where
  "between lo hi c = ((of_char lo :: nat) \<le> of_char c \<and> (of_char c :: nat) \<le> of_char hi)"

definition digit :: char_class where
  "digit = between CHR ''0'' CHR ''9''"

definition one_of :: "string \<Rightarrow> char_class" where
  "one_of cs c = (c \<in> set cs)"

fun match_classes :: "char_class list \<Rightarrow> string \<Rightarrow> (string \<times> string) option" where
  "match_classes [] s = Some ([], s)"
| "match_classes (p # ps) [] = None"
| "match_classes (p # ps) (c # cs) =
     (if p c
      then (case match_classes ps cs of
              None \<Rightarrow> None
            | Some (m, r) \<Rightarrow> Some (c # m, r))
      else None)"

definition alternatives :: "char_class list list \<Rightarrow> string \<Rightarrow> (string \<times> string) list" where
  "alternatives alts s = List.map_filter (\<lambda>a. match_classes a s) alts"

text \<open>
  All the ways a sequence of groups matches a prefix of the text, in the order in which
  backtracking finds them: the first one is the match the library uses.
\<close>

fun match_groups :: "char_class list list list \<Rightarrow> string \<Rightarrow> (string list \<times> string) list" where
  "match_groups [] s = [([], s)]"
| "match_groups (g # gs) s =
     concat (map (\<lambda>mr. map (\<lambda>msr. (fst mr # fst msr, snd msr)) (match_groups gs (snd mr)))
                 (alternatives g s))"

text \<open>
  The groups of the directives \<^verbatim>\<open>%Y\<close>, \<^verbatim>\<open>%m\<close>, \<^verbatim>\<open>%d\<close>, \<^verbatim>\<open>%H\<close>, \<^verbatim>\<open>%M\<close> and \<^verbatim>\<open>%S\<close>, and
  the group of a character of the format that stands for itself (in either case, for the
  letter \<^verbatim>\<open>T\<close>).
\<close>

definition year_group :: "char_class list list" where
  "year_group = [[digit, digit, digit, digit]]"

definition month_group :: "char_class list list" where
  "month_group =
     [[one_of ''1'', between CHR ''0'' CHR ''2''], [one_of ''0'', between CHR ''1'' CHR ''9''],
      [between CHR ''1'' CHR ''9'']]"

definition day_group :: "char_class list list" where
  "day_group =
     [[one_of ''3'', between CHR ''0'' CHR ''1''], [between CHR ''1'' CHR ''2'', digit],
      [one_of ''0'', between CHR ''1'' CHR ''9''], [between CHR ''1'' CHR ''9''],
      [one_of '' '', between CHR ''1'' CHR ''9'']]"

definition hour_group :: "char_class list list" where
  "hour_group =
     [[one_of ''2'', between CHR ''0'' CHR ''3''], [between CHR ''0'' CHR ''1'', digit], [digit]]"

definition minute_group :: "char_class list list" where
  "minute_group = [[between CHR ''0'' CHR ''5'', digit], [digit]]"

definition second_group :: "char_class list list" where
  "second_group =
     [[one_of ''6'', between CHR ''0'' CHR ''1''], [between CHR ''0'' CHR ''5'', digit], [digit]]"

definition literal :: "string \<Rightarrow> char_class list list" where
  "literal cs = [[one_of cs]]"

definition ISO_FORMAT :: "char_class list list list" where
  "ISO_FORMAT =
     [year_group, literal ''-'', month_group, literal ''-'', day_group, literal ''Tt'',
      hour_group, literal '':'', minute_group, literal '':'', second_group]"

text \<open>\<^verbatim>\<open>int(s)\<close> on a matched field: decimal digits, after an optional space.\<close>

definition int_of_field :: "string \<Rightarrow> int" where
  "int_of_field s =
     foldl (\<lambda>a c. 10 * a + (int (of_char c) - 48)) 0 (dropWhile (\<lambda>c. c = CHR '' '') s)"

definition strptime :: "string \<Rightarrow> pyerror + datetime" where
  "strptime s =
     (case match_groups ISO_FORMAT s of
        [] \<Rightarrow> Inl ValueError
      | (found, rest) # others \<Rightarrow>
          if rest \<noteq> [] then Inl ValueError
          else if length found \<noteq> 11 then Inl ValueError
          else datetime_new (int_of_field (found ! 0)) (int_of_field (found ! 2))
                 (int_of_field (found ! 4)) (int_of_field (found ! 6))
                 (int_of_field (found ! 8)) (int_of_field (found ! 10)) 0)"

subsection \<open>Subscripts and methods on objects\<close>

text \<open>
  \<^verbatim>\<open>obj[name]\<close> for a text \<open>name\<close>: the value of the key in a dictionary, \<^verbatim>\<open>KeyError\<close>
  when the key is missing, \<^verbatim>\<open>TypeError\<close> on \<^verbatim>\<open>None\<close> and on every other object.
\<close>

fun getitem :: "pyval \<Rightarrow> string \<Rightarrow> pyerror + pyval" where
  "getitem (PDict kvs) name =
     (case map_of kvs (PStr name) of None \<Rightarrow> Inl KeyError | Some v \<Rightarrow> Inr v)"
| "getitem _ name = Inl TypeError"

text \<open>
  \<^verbatim>\<open>obj.split('.')[0]\<close>: text has the method; \<^verbatim>\<open>bytes\<close> has it but refuses a text
  separator; the other objects have no such attribute.
\<close>

fun split_dot_first :: "pyval \<Rightarrow> pyerror + string" where
  "split_dot_first (PStr s) = Inr (first_piece CHR ''.'' s)"
| "split_dot_first (PBytes b) = Inl TypeError"
| "split_dot_first _ = Inl AttributeError"

section \<open>The class \<^verbatim>\<open>flix\<close>\<close>

subsection \<open>The credential state and the outside world\<close>

text \<open>
  The attributes of an instance. \<^verbatim>\<open>key\<close> and \<^verbatim>\<open>secret\<close> hold whatever the response of the
  server carried, so they are objects; \<open>PNone\<close>, and \<open>None\<close> for the others, is Python's
  \<^verbatim>\<open>None\<close>.
\<close>

record flix =
  hostname :: "string option"
  login :: "string option"
  password :: "string option"
  key :: pyval
  secret :: pyval
  expiry :: "datetime option"

text \<open>
  \<^verbatim>\<open>requests.post(url, headers=header, verify=False)\<close> either raises an exception of
  class \<^verbatim>\<open>RequestException\<close> (with a message), or returns a response \<open>r\<close>:
  its \<^verbatim>\<open>status_code\<close>, and the value of \<^verbatim>\<open>json.loads(r.content)\<close>, which is \<open>None\<close> when
  the content is not JSON. \<^verbatim>\<open>r.raise_for_status()\<close> raises \<^verbatim>\<open>HTTPError\<close>, a
  \<^verbatim>\<open>RequestException\<close> too, on a status from 400 to 599.
\<close>

datatype http_reply = PostRaises string | PostReturns nat "pyval option"

datatype request_exception = RequestException string | HTTPError nat

type_synonym headers = "(string \<times> string) list"
type_synonym post = "string \<Rightarrow> headers \<Rightarrow> http_reply"

text \<open>What a call does to the outside, in order: the requests sent and the lines printed.\<close>

datatype event = Posted string headers | Printed string request_exception

type_synonym 'a outcome = "(pyerror + 'a) \<times> flix \<times> event list"

subsection \<open>\<^verbatim>\<open>reset\<close> and \<^verbatim>\<open>__init__\<close>\<close>

definition reset :: "flix \<Rightarrow> flix" where
  "reset self =
     self\<lparr>hostname := None, secret := PNone, expiry := None, login := None,
          password := None, key := PNone\<rparr>"

definition init :: flix where
  "init = \<lparr>hostname = None, login = None, password = None,
           key = PNone, secret = PNone, expiry = None\<rparr>"

subsection \<open>\<^verbatim>\<open>authenticate\<close>\<close>

text \<open>
  The arguments are optional text, since \<^verbatim>\<open>__get_token\<close> passes the attributes of the
  instance, which may be \<^verbatim>\<open>None\<close>: \<^verbatim>\<open>login + ':' + password\<close> and
  \<^verbatim>\<open>hostname + '/authenticate'\<close> then raise \<^verbatim>\<open>TypeError\<close>. The \<^verbatim>\<open>except\<close> clause catches
  \<^verbatim>\<open>RequestException\<close> only; the three assignments after it are made one by one, each
  after the evaluation of its right-hand side.
\<close>

definition store_token :: "pyval \<Rightarrow> flix \<Rightarrow> event list \<Rightarrow> pyval outcome" where
  "store_token response self evs =
     (case getitem response ''id'' of
        Inl e \<Rightarrow> (Inl e, self, evs)
      | Inr k \<Rightarrow>
          let self1 = self\<lparr>key := k\<rparr>
          in (case getitem response ''secret_access_key'' of
                Inl e \<Rightarrow> (Inl e, self1, evs)
              | Inr s \<Rightarrow>
                  let self2 = self1\<lparr>secret := s\<rparr>
                  in (case getitem response ''expiry_date'' of
                        Inl e \<Rightarrow> (Inl e, self2, evs)
                      | Inr d \<Rightarrow>
                          (case split_dot_first d of
                             Inl e \<Rightarrow> (Inl e, self2, evs)
                           | Inr d0 \<Rightarrow>
                               (case strptime d0 of
                                  Inl e \<Rightarrow> (Inl e, self2, evs)
                                | Inr t \<Rightarrow> (Inr response, self2\<lparr>expiry := Some t\<rparr>, evs))))))"

text \<open>
  The dictionary \<^verbatim>\<open>header\<close> of the request, and the two steps \<^verbatim>\<open>requests.post(...)\<close> and
  \<^verbatim>\<open>r.raise_for_status()\<close> together: the \<^verbatim>\<open>RequestException\<close> raised by one of them, or
  else the parsed content of the response.
\<close>

definition auth_header :: "string \<Rightarrow> string \<Rightarrow> headers" where
  "auth_header l p =
     (let authdata = b64encode (utf8_encode (l @ '':'' @ p))
      in [(''Content-Type'', ''application/json''),
          (''Authorization'', ''Basic '' @ authdata)])"

fun raise_for_status :: "http_reply \<Rightarrow> request_exception + pyval option" where
  "raise_for_status (PostRaises msg) = Inl (RequestException msg)"
| "raise_for_status (PostReturns status body) =
     (if 400 \<le> status \<and> status < 600 then Inl (HTTPError status) else Inr body)"

definition authenticate ::
  "post \<Rightarrow> string option \<Rightarrow> string option \<Rightarrow> string option \<Rightarrow> flix \<Rightarrow> pyval outcome" where
  "authenticate post h l p self =
     (case (l, p) of
        (Some l', Some p') \<Rightarrow>
          let header = auth_header l' p'
          in (case h of
                None \<Rightarrow> (Inl TypeError, self, [])
              | Some h' \<Rightarrow>
                  let url = h' @ ''/authenticate''
                  in (case raise_for_status (post url header) of
                        Inl err \<Rightarrow>
                          (Inr PNone, self,
                           [Posted url header, Printed ''Authentification failed'' err])
                      | Inr None \<Rightarrow> (Inl JSONDecodeError, self, [Posted url header])
                      | Inr (Some response) \<Rightarrow>
                          store_token response
                            (self\<lparr>hostname := Some h', login := Some l', password := Some p'\<rparr>)
                            [Posted url header]))
      | _ \<Rightarrow> (Inl TypeError, self, []))"

subsection \<open>\<^verbatim>\<open>__get_token\<close>\<close>

text \<open>
  \<open>now\<close> is the value of \<^verbatim>\<open>datetime.now()\<close> at the call. \<open>needs_refresh\<close> is the condition
  of the \<^verbatim>\<open>if\<close>; \<open>refresh\<close> is its body, which calls \<open>authenticate\<close> with the stored
  identity and reads the token again from what it returns.
\<close>

definition needs_refresh :: "datetime \<Rightarrow> flix \<Rightarrow> bool" where
  "needs_refresh now self =
     (key self = PNone \<or> secret self = PNone \<or>
      (case expiry self of None \<Rightarrow> True | Some e \<Rightarrow> now + timedelta_hours 2 > e))"

definition refresh :: "post \<Rightarrow> flix \<Rightarrow> unit outcome" where
  "refresh post self =
     (case authenticate post (hostname self) (login self) (password self) self of
        (Inl e, self1, evs) \<Rightarrow> (Inl e, self1, evs)
      | (Inr authentificationToken, self1, evs) \<Rightarrow>
          (case getitem authentificationToken ''id'' of
             Inl e \<Rightarrow> (Inl e, self1, evs)
           | Inr auth_id \<Rightarrow>
               (case getitem authentificationToken ''secret_access_key'' of
                  Inl e \<Rightarrow> (Inl e, self1, evs)
                | Inr auth_secret_token \<Rightarrow>
                    (case getitem authentificationToken ''expiry_date'' of
                       Inl e \<Rightarrow> (Inl e, self1, evs)
                     | Inr d \<Rightarrow>
                         (case split_dot_first d of
                            Inl e \<Rightarrow> (Inl e, self1, evs)
                          | Inr auth_expiry_date \<Rightarrow>
                              let self2 = self1\<lparr>key := auth_id, secret := auth_secret_token\<rparr>
                              in (case strptime auth_expiry_date of
                                    Inl e \<Rightarrow> (Inl e, self2, evs)
                                  | Inr t \<Rightarrow> (Inr (), self2\<lparr>expiry := Some t\<rparr>, evs)))))))"

definition get_token :: "post \<Rightarrow> datetime \<Rightarrow> flix \<Rightarrow> (pyval \<times> pyval) outcome" where
  "get_token post now self =
     (if needs_refresh now self
      then (case refresh post self of
              (Inl e, self1, evs) \<Rightarrow> (Inl e, self1, evs)
            | (Inr u, self1, evs) \<Rightarrow> (Inr (key self1, secret self1), self1, evs))
      else (Inr (key self, secret self), self, []))"

subsection \<open>\<^verbatim>\<open>__fn_sign\<close>\<close>

text \<open>
  The arguments declared \<^verbatim>\<open>str\<close> are text; \<^verbatim>\<open>content\<close> is any object; \<^verbatim>\<open>dt\<close> is the
  \<^verbatim>\<open>datetime\<close> that \<^verbatim>\<open>__get_headers\<close> passes. \<open>content_md5\<close> is the variable of that name
  after the first \<^verbatim>\<open>if\<close>, and \<open>raw_string\<close> the variable of that name when the secret
  is checked: the text that is signed. Only the method is upper-cased, so only that part
  can hold a code point above 255.
\<close>

definition content_md5 :: "digests \<Rightarrow> pyval \<Rightarrow> pyerror + string" where
  "content_md5 L content =
     (if truthy content
      then (case content of
              PStr s \<Rightarrow> hashlib_md5_hexdigest L content
            | PBytes b \<Rightarrow> hashlib_md5_hexdigest L (PBytes (hexlify b))
            | PDict kvs \<Rightarrow>
                (case json_dumps content of
                   Inl e \<Rightarrow> Inl e
                 | Inr jsoned \<Rightarrow> hashlib_md5_hexdigest L (PBytes (utf8_encode jsoned)))
            | _ \<Rightarrow> Inr [])
      else Inr [])"

definition raw_string ::
  "digests \<Rightarrow> string \<Rightarrow> pyval \<Rightarrow> string \<Rightarrow> string \<Rightarrow> datetime \<Rightarrow> pyerror + codepoints" where
  "raw_string L url content http_method content_type dt =
     (case content_md5 L content of
        Inl e \<Rightarrow> Inl e
      | Inr md5 \<Rightarrow>
          Inr (upper http_method
               @ text_of ([CHR 0x0A]
                    @ (if md5 \<noteq> [] then md5 @ [CHR 0x0A] @ content_type @ [CHR 0x0A]
                       else [CHR 0x0A, CHR 0x0A])
                    @ first_piece CHR ''.'' (isoformat dt) @ ''Z'' @ [CHR 0x0A]
                    @ first_piece CHR ''?'' url)))"

definition fn_sign ::
  "digests \<Rightarrow> string \<Rightarrow> string \<Rightarrow> string \<Rightarrow> pyval \<Rightarrow> string \<Rightarrow> string \<Rightarrow> datetime
     \<Rightarrow> pyerror + string" where
  "fn_sign L access_key_id secret_access_key url content http_method content_type dt =
     (case raw_string L url content http_method content_type dt of
        Inl e \<Rightarrow> Inl e
      | Inr raw \<Rightarrow>
          if length secret_access_key = 0 then Inl ValueError
          else Inr (''FNAUTH '' @ access_key_id @ '':''
                    @ b64encode (hmac_sha256 L (utf8_encode secret_access_key)
                                   (utf8_text raw))))"

subsection \<open>Kinds of content\<close>

text \<open>The three tests \<^verbatim>\<open>isinstance(content, str)\<close>, \<^verbatim>\<open>bytes\<close> and \<^verbatim>\<open>dict\<close>.\<close>

fun isinstance_str :: "pyval \<Rightarrow> bool" where
  "isinstance_str (PStr s) = True"
| "isinstance_str _ = False"

fun isinstance_bytes :: "pyval \<Rightarrow> bool" where
  "isinstance_bytes (PBytes b) = True"
| "isinstance_bytes _ = False"

fun isinstance_dict :: "pyval \<Rightarrow> bool" where
  "isinstance_dict (PDict kvs) = True"
| "isinstance_dict _ = False"

subsection \<open>Sequences of calls\<close>

text \<open>
  A client calls \<^verbatim>\<open>authenticate\<close>, \<^verbatim>\<open>__get_token\<close> and \<^verbatim>\<open>reset\<close> on one instance, in any
  order. Each call comes with what the server answers if the call sends a request.
  The instance keeps the attributes a call has assigned also when the call ends in an
  exception, so \<open>exec\<close> is the state after the call, however it ends.
\<close>

definition answering :: "http_reply \<Rightarrow> post" where
  "answering reply url header = reply"

datatype call =
    Authenticate string string string http_reply
  | GetToken datetime http_reply
  | Reset

fun exec :: "flix \<Rightarrow> call \<Rightarrow> flix" where
  "exec self (Authenticate h l p reply) =
     fst (snd (authenticate (answering reply) (Some h) (Some l) (Some p) self))"
| "exec self (GetToken now reply) = fst (snd (get_token (answering reply) now self))"
| "exec self Reset = reset self"

definition run :: "call list \<Rightarrow> flix" where
  "run calls = foldl exec init calls"

definition token_present :: "flix \<Rightarrow> bool" where
  "token_present self = (key self \<noteq> PNone \<and> secret self \<noteq> PNone \<and> expiry self \<noteq> None)"

definition token_absent :: "flix \<Rightarrow> bool" where
  "token_absent self = (key self = PNone \<and> secret self = PNone \<and> expiry self = None)"

definition token_unit :: "flix \<Rightarrow> bool" where
  "token_unit self = (token_present self \<or> token_absent self)"

text \<open>
  A parsed body is a complete token when it is a dictionary whose \<^verbatim>\<open>id\<close> and
  \<^verbatim>\<open>secret_access_key\<close> are not \<^verbatim>\<open>None\<close> and whose \<^verbatim>\<open>expiry_date\<close> is text that
  \<open>strptime\<close> accepts once the fraction is cut off. An answer is sound when it is a
  failure, or a body without \<^verbatim>\<open>id\<close>, or a complete token.
\<close>

definition complete_token :: "pyval \<Rightarrow> bool" where
  "complete_token body =
     (case getitem body ''id'' of
        Inl e \<Rightarrow> False
      | Inr k \<Rightarrow> k \<noteq> PNone \<and>
          (case getitem body ''secret_access_key'' of
             Inl e \<Rightarrow> False
           | Inr s \<Rightarrow> s \<noteq> PNone \<and>
               (case getitem body ''expiry_date'' of
                  Inl e \<Rightarrow> False
                | Inr d \<Rightarrow>
                    (case split_dot_first d of
                       Inl e \<Rightarrow> False
                     | Inr d0 \<Rightarrow> (case strptime d0 of Inl e \<Rightarrow> False | Inr t \<Rightarrow> True)))))"

definition sound_reply :: "http_reply \<Rightarrow> bool" where
  "sound_reply reply =
     (case raise_for_status reply of
        Inl err \<Rightarrow> True
      | Inr None \<Rightarrow> True
      | Inr (Some body) \<Rightarrow>
          (case getitem body ''id'' of Inl e \<Rightarrow> True | Inr k \<Rightarrow> complete_token body))"

fun sound_call :: "call \<Rightarrow> bool" where
  "sound_call (Authenticate h l p reply) = sound_reply reply"
| "sound_call (GetToken now reply) = sound_reply reply"
| "sound_call Reset = True"

subsection \<open>Sample values\<close>

text \<open>
  Closed instances of the theorems need some pair of digest functions; these two stand
  in for them. \<open>new_year_2024\<close> is \<^verbatim>\<open>datetime(2024, 1, 1, 0, 0, 0)\<close>.
\<close>

definition sample_digests :: digests where
  "sample_digests = \<lparr>md5_hexdigest = (\<lambda>bs. ''d41d8cd98f00b204e9800998ecf8427e''),
                      hmac_sha256 = (\<lambda>k msg. take 32 (k @ msg))\<rparr>"

definition new_year_2024 :: datetime where
  "new_year_2024 = 63839750400000000"

text \<open>
  A token as the server sends it, with a fraction in its expiry date; the time
  \<^verbatim>\<open>datetime(2024, 1, 1, 10, 0, 0)\<close>; a clock that shows nine o'clock of that day in
  UTC, in a zone five hours behind UTC; and a session that holds the token.
\<close>

definition sample_token :: pyval where
  "sample_token =
     PDict [(PStr ''id'', PStr ''AKID''),
            (PStr ''secret_access_key'', PStr ''s3cret''),
            (PStr ''expiry_date'', PStr ''2024-01-01T10:00:00.123456'')]"

definition ten_oclock :: datetime where
  "ten_oclock = 63839786400000000"


definition sample_session :: flix where
  "sample_session =
     \<lparr>hostname = Some ''https://flix'', login = Some ''ann'', password = Some ''pw'',
      key = PStr ''AKID'', secret = PStr ''s3cret'', expiry = Some ten_oclock\<rparr>"

section \<open>Properties of the signature\<close>

lemma datetime_new_2024: "datetime_new 2024 1 1 0 0 0 0 = Inr new_year_2024"
  unfolding new_year_2024_def by code_simp

lemma isoformat_2024: "isoformat new_year_2024 = ''2024-01-01T00:00:00''"
  unfolding new_year_2024_def by code_simp

lemma zero_pad_samples:
  "zero_pad 6 123456 = ''123456''" "zero_pad 4 2024 = ''2024''"
  "zero_pad 2 (Suc 0) = ''01''" "zero_pad 2 0 = ''00''"
  by (simp_all add: zero_pad_def digit_char_def)

lemma ord2ymd_2024: "ord2ymd 738886 = (2024, 1, 1)"
  by (simp add: ord2ymd_def DAYS_BEFORE_MONTH_def DAYS_IN_MONTH_def Let_def)

lemma isoformat_2024_fraction:
  "isoformat (new_year_2024 + 123456) = ''2024-01-01T00:00:00.123456''"
proof -
  have a: "(63839750400123456::int) mod 1000000 = 123456"
    "(63839750400123456::int) div 1000000 = 63839750400" by simp_all
  have b: "(63839750400::int) mod 60 = 0" "(63839750400::int) div 60 = 1063995840"
    by simp_all
  have c: "(1063995840::int) mod 60 = 0" "(1063995840::int) div 60 = 17733264"
    by simp_all
  have d: "(17733264::int) mod 24 = 0" "(17733264::int) div 24 = 738886" by simp_all
  have "isoformat 63839750400123456 = ''2024-01-01T00:00:00.123456''"
    unfolding isoformat_def Let_def a b c d ord2ymd_2024
    by (simp add: iso_text_def zero_pad_samples del: str_nat.simps)
  then show ?thesis by (simp add: new_year_2024_def)
qed

lemma upper_get: "upper ''get'' = text_of ''GET''"
  by (simp add: upper_def upper_char_def text_of_def)

lemma upper_GET: "upper ''GET'' = text_of ''GET''"
  by (simp add: upper_def upper_char_def text_of_def)

text \<open>
  C1. A \<^verbatim>\<open>GET\<close> request without content for \<^verbatim>\<open>/show/1/sequence/2/revision/1\<close>, stamped
  \<^verbatim>\<open>datetime(2024, 1, 1, 0, 0, 0)\<close>: the text that \<^verbatim>\<open>__fn_sign\<close> signs is the method in
  upper case and a newline, two more newlines for the absent content, the time without
  fraction followed by \<^verbatim>\<open>Z\<close> and a newline, then the path, with no newline at the end.
  This holds for every content type and every pair of digest functions. The same text
  comes out when the method is written \<^verbatim>\<open>get\<close> and when the time has 123456 microseconds
  more.
\<close>

theorem raw_string_get_scenario:
  "datetime_new 2024 1 1 0 0 0 0 = Inr new_year_2024 \<and>
   raw_string L ''/show/1/sequence/2/revision/1'' PNone ''GET'' content_type new_year_2024 =
     Inr (text_of (''GET'' @ [CHR 0x0A] @ [CHR 0x0A] @ [CHR 0x0A] @ ''2024-01-01T00:00:00Z''
                   @ [CHR 0x0A] @ ''/show/1/sequence/2/revision/1'')) \<and>
   raw_string L ''/show/1/sequence/2/revision/1'' PNone ''get'' content_type
       (new_year_2024 + 123456) =
     Inr (text_of (''GET'' @ [CHR 0x0A] @ [CHR 0x0A] @ [CHR 0x0A] @ ''2024-01-01T00:00:00Z''
                   @ [CHR 0x0A] @ ''/show/1/sequence/2/revision/1''))"
  by (simp add: datetime_new_2024 raw_string_def content_md5_def isoformat_2024
        isoformat_2024_fraction first_piece_def upper_get upper_GET text_of_def)

lemma raw_string_sample:
  "raw_string sample_digests ''/show/1/sequence/2/revision/1'' PNone ''GET''
     ''application/json'' new_year_2024 =
   Inr (text_of (''GET'' @ [CHR 0x0A] @ [CHR 0x0A] @ [CHR 0x0A] @ ''2024-01-01T00:00:00Z''
                 @ [CHR 0x0A] @ ''/show/1/sequence/2/revision/1''))"
  by (simp add: raw_string_def content_md5_def isoformat_2024
        first_piece_def upper_GET text_of_def)

lemma b64encode_sample:
  "b64encode (hmac_sha256 sample_digests (utf8_encode ''s3cret'')
     (utf8_text (text_of (''GET'' @ [CHR 0x0A] @ [CHR 0x0A] @ [CHR 0x0A]
        @ ''2024-01-01T00:00:00Z'' @ [CHR 0x0A] @ ''/show/1/sequence/2/revision/1'')))) =
   ''czNjcmV0R0VUCgoKMjAyNC0wMS0wMVQwMDowMDowMFo=''"
  by (simp add: sample_digests_def utf8_encode_def utf8_char_def utf8_text_def utf8_point_def
        text_of_def b64_char_def)

text \<open>
  C2. Whenever the secret is not empty and the text to sign has been built, \<^verbatim>\<open>__fn_sign\<close>
  returns \<^verbatim>\<open>FNAUTH\<close>, a space, the access key, a colon and the base64 form of the
  HMAC-SHA256 digest of the UTF-8 bytes of that text, keyed by the UTF-8 bytes of the
  secret.
\<close>

theorem fn_sign_value:
  assumes "secret_access_key \<noteq> []"
    and "raw_string L url content http_method content_type dt = Inr raw"
  shows "fn_sign L access_key_id secret_access_key url content http_method content_type dt =
           Inr (''FNAUTH '' @ access_key_id @ '':''
                @ b64encode (hmac_sha256 L (utf8_encode secret_access_key) (utf8_text raw)))"
  using assms by (simp add: fn_sign_def)

theorem fn_sign_value_witness:
  "''s3cret'' \<noteq> [] \<and>
   raw_string sample_digests ''/show/1/sequence/2/revision/1'' PNone ''GET''
     ''application/json'' new_year_2024 =
     Inr (text_of (''GET'' @ [CHR 0x0A] @ [CHR 0x0A] @ [CHR 0x0A] @ ''2024-01-01T00:00:00Z''
                   @ [CHR 0x0A] @ ''/show/1/sequence/2/revision/1'')) \<and>
   fn_sign sample_digests ''key'' ''s3cret'' ''/show/1/sequence/2/revision/1'' PNone ''GET''
     ''application/json'' new_year_2024 =
     Inr ''FNAUTH key:czNjcmV0R0VUCgoKMjAyNC0wMS0wMVQwMDowMDowMFo=''"
proof -
  have secret: "''s3cret'' \<noteq> []" by simp
  show ?thesis
    using fn_sign_value [OF secret raw_string_sample, of "''key''"]
    by (simp only: b64encode_sample raw_string_sample) simp
qed

text \<open>
  The exceptions of \<open>json_dumps\<close> are all \<^verbatim>\<open>TypeError\<close>.
\<close>

lemma collect_Inl: "collect rs = Inl e \<Longrightarrow> Inl e \<in> set rs"
  by (induction rs rule: collect.induct) (auto split: sum.splits)

lemma json_key_error: "json_key k = Inl e \<Longrightarrow> e = TypeError"
  by (cases k) auto

lemma json_dumps_error: "json_dumps v = Inl e \<Longrightarrow> e = TypeError"
proof (induction v arbitrary: e rule: json_dumps.induct)
  case (6 xs)
  then show ?case by (auto split: sum.splits dest!: collect_Inl)
next
  case (7 kvs)
  then show ?case by (auto split: sum.splits dest!: collect_Inl json_key_error)
qed auto

text \<open>
  C4, as the code has it. The secret is checked after the text to sign is built, so an
  exception of that construction comes first. With an empty secret and a content that is
  not a non-empty text, \<^verbatim>\<open>__fn_sign\<close> raises \<^verbatim>\<open>ValueError\<close>, except for a non-empty
  dictionary that \<^verbatim>\<open>json.dumps\<close> refuses, where it raises the \<^verbatim>\<open>TypeError\<close> of
  \<^verbatim>\<open>json.dumps\<close>. No signature is returned in either case.
\<close>

theorem fn_sign_empty_secret:
  assumes "\<not> (isinstance_str content \<and> truthy content)"
  shows "fn_sign L access_key_id [] url content http_method content_type dt =
           (if isinstance_dict content \<and> truthy content \<and> json_dumps content = Inl TypeError
            then Inl TypeError else Inl ValueError)"
proof (cases content)
  case (PDict kvs)
  show ?thesis
  proof (cases "json_dumps content")
    case (Inl e)
    then have "e = TypeError" by (rule json_dumps_error)
    with Inl PDict show ?thesis
      by (simp add: fn_sign_def raw_string_def content_md5_def)
  next
    case (Inr j)
    with PDict show ?thesis
      by (simp add: fn_sign_def raw_string_def content_md5_def)
  qed
qed (use assms in \<open>simp_all add: fn_sign_def raw_string_def content_md5_def\<close>)

theorem fn_sign_empty_secret_witness:
  "\<not> (isinstance_str (PBytes [102, 111, 111]) \<and> truthy (PBytes [102, 111, 111])) \<and>
   fn_sign sample_digests ''key'' [] ''/show/1/sequence/2/revision'' (PBytes [102, 111, 111])
     ''POST'' ''application/json'' new_year_2024 = Inl ValueError"
  using fn_sign_empty_secret [of "PBytes [102, 111, 111]" sample_digests "''key''"
      "''/show/1/sequence/2/revision''" "''POST''" "''application/json''" new_year_2024]
  by simp

text \<open>
  C4, as the claim states it, fails: a dictionary with a value of type \<^verbatim>\<open>bytes\<close> makes
  \<^verbatim>\<open>json.dumps\<close> raise \<^verbatim>\<open>TypeError\<close> before the empty secret is looked at.
\<close>

theorem fn_sign_empty_secret_counterexample:
  "fn_sign sample_digests ''key'' [] ''/show/1/sequence/2/revision''
     (PDict [(PStr ''comment'', PBytes [1])]) ''POST'' ''application/json'' new_year_2024
   = Inl TypeError \<and>
   fn_sign sample_digests ''key'' [] ''/show/1/sequence/2/revision''
     (PDict [(PStr ''comment'', PBytes [1])]) ''POST'' ''application/json'' new_year_2024
   \<noteq> Inl ValueError"
  by (simp add: fn_sign_def raw_string_def content_md5_def)

text \<open>
  C5. The code hands a text content to \<^verbatim>\<open>hashlib.md5\<close> as it is. \<^verbatim>\<open>hashlib.md5\<close> takes
  bytes only, so for the text \<^verbatim>\<open>foo\<close> there is no fingerprint: \<open>content_md5\<close>, and with it
  \<^verbatim>\<open>__fn_sign\<close>, ends in \<^verbatim>\<open>TypeError\<close>. For the bytes of \<^verbatim>\<open>foo\<close> the fingerprint is the MD5
  digest of the hexadecimal text \<^verbatim>\<open>666f6f\<close>.
\<close>

theorem content_md5_text_and_bytes:
  "content_md5 L (PStr ''foo'') = Inl TypeError \<and>
   fn_sign L access_key_id secret_access_key url (PStr ''foo'') http_method content_type dt
     = Inl TypeError \<and>
   content_md5 L (PBytes (utf8_encode ''foo'')) = Inr (md5_hexdigest L (utf8_encode ''666f6f''))"
  by (simp add: fn_sign_def raw_string_def content_md5_def utf8_encode_def utf8_char_def
        hexlify_def hex_byte_def)

text \<open>
  C10. A content that is neither text, nor bytes, nor a dictionary (a list, a number, a
  boolean) gets no fingerprint: the text to sign has the two empty lines of an absent
  content, and the signature is the one of the same request without content.
\<close>

theorem fn_sign_other_content:
  assumes "\<not> isinstance_str content" and "\<not> isinstance_bytes content"
    and "\<not> isinstance_dict content"
  shows "content_md5 L content = Inr [] \<and>
         raw_string L url content http_method content_type dt =
           Inr (upper http_method
                @ text_of ([CHR 0x0A] @ [CHR 0x0A, CHR 0x0A]
                     @ first_piece CHR ''.'' (isoformat dt) @ ''Z'' @ [CHR 0x0A]
                     @ first_piece CHR ''?'' url)) \<and>
         raw_string L url content http_method content_type dt =
           raw_string L url PNone http_method content_type dt \<and>
         fn_sign L access_key_id secret_access_key url content http_method content_type dt =
           fn_sign L access_key_id secret_access_key url PNone http_method content_type dt"
  using assms by (cases content) (simp_all add: fn_sign_def raw_string_def content_md5_def)

theorem fn_sign_other_content_witness:
  "\<not> isinstance_str (PList [PInt 1, PInt 2]) \<and> \<not> isinstance_bytes (PList [PInt 1, PInt 2]) \<and>
   \<not> isinstance_dict (PList [PInt 1, PInt 2]) \<and> truthy (PList [PInt 1, PInt 2]) \<and>
   content_md5 sample_digests (PList [PInt 1, PInt 2]) = Inr [] \<and>
   raw_string sample_digests ''/show/1/sequence/2/revision/1'' (PList [PInt 1, PInt 2]) ''GET''
     ''application/json'' new_year_2024 =
     Inr (text_of (''GET'' @ [CHR 0x0A] @ [CHR 0x0A] @ [CHR 0x0A] @ ''2024-01-01T00:00:00Z''
                   @ [CHR 0x0A] @ ''/show/1/sequence/2/revision/1'')) \<and>
   fn_sign sample_digests ''key'' ''s3cret'' ''/show/1/sequence/2/revision/1''
     (PList [PInt 1, PInt 2]) ''GET'' ''application/json'' new_year_2024 =
   fn_sign sample_digests ''key'' ''s3cret'' ''/show/1/sequence/2/revision/1''
     PNone ''GET'' ''application/json'' new_year_2024"
  using fn_sign_other_content [of "PList [PInt 1, PInt 2]" sample_digests
      "''/show/1/sequence/2/revision/1''" "''GET''" "''application/json''" new_year_2024
      "''key''" "''s3cret''"]
  by (simp add: isoformat_2024 first_piece_def upper_GET text_of_def)

section \<open>Properties of authentication\<close>



lemma strptime_ten: "strptime ''2024-01-01T10:00:00'' = Inr ten_oclock"
  unfolding ten_oclock_def by code_simp

lemma auth_header_sample:
  "auth_header ''ann'' ''pw'' =
     [(''Content-Type'', ''application/json''), (''Authorization'', ''Basic YW5uOnB3'')]"
  by (simp add: auth_header_def utf8_encode_def utf8_char_def b64_char_def)

text \<open>
  C6, as the code has it. When the request raises a \<^verbatim>\<open>RequestException\<close> (the transport
  fails, or \<^verbatim>\<open>raise_for_status\<close> meets a status from 400 to 599), \<^verbatim>\<open>authenticate\<close> prints
  \<^verbatim>\<open>Authentification failed\<close> with the cause and returns \<^verbatim>\<open>None\<close>: the call ends normally,
  with no exception, and the cause is on the output only.
\<close>

theorem authenticate_failure_prints:
  assumes "raise_for_status (post (h @ ''/authenticate'') (auth_header l p)) = Inl err"
  shows "fst (authenticate post (Some h) (Some l) (Some p) self) = Inr PNone \<and>
         (\<forall>e. fst (authenticate post (Some h) (Some l) (Some p) self) \<noteq> Inl e) \<and>
         snd (snd (authenticate post (Some h) (Some l) (Some p) self)) =
           [Posted (h @ ''/authenticate'') (auth_header l p),
            Printed ''Authentification failed'' err]"
  using assms by (simp add: authenticate_def)

theorem authenticate_failure_prints_witness:
  "raise_for_status (answering (PostReturns 401 None) (''https://flix'' @ ''/authenticate'')
     (auth_header ''ann'' ''pw'')) = Inl (HTTPError 401) \<and>
   fst (authenticate (answering (PostReturns 401 None)) (Some ''https://flix'') (Some ''ann'')
     (Some ''pw'') init) = Inr PNone \<and>
   snd (snd (authenticate (answering (PostReturns 401 None)) (Some ''https://flix'')
     (Some ''ann'') (Some ''pw'') init)) =
     [Posted ''https://flix/authenticate''
        [(''Content-Type'', ''application/json''), (''Authorization'', ''Basic YW5uOnB3'')],
      Printed ''Authentification failed'' (HTTPError 401)]"
proof -
  have failing: "raise_for_status (answering (PostReturns 401 None)
      (''https://flix'' @ ''/authenticate'') (auth_header ''ann'' ''pw'')) = Inl (HTTPError 401)"
    by (simp add: answering_def)
  show ?thesis
    using failing authenticate_failure_prints [of "answering (PostReturns 401 None)"
        "''https://flix''" "''ann''" "''pw''" "HTTPError 401" init]
    by (simp add: auth_header_sample)
qed

text \<open>
  C6, as the claim states it, fails: after a refused connection and after a status 401
  the caller gets \<^verbatim>\<open>None\<close> as an ordinary result, not an error.
\<close>

theorem authenticate_failure_counterexample:
  "authenticate (answering (PostRaises ''connection refused'')) (Some ''https://flix'')
     (Some ''ann'') (Some ''pw'') init =
     (Inr PNone, init,
      [Posted ''https://flix/authenticate'' (auth_header ''ann'' ''pw''),
       Printed ''Authentification failed'' (RequestException ''connection refused'')]) \<and>
   fst (authenticate (answering (PostReturns 401 None)) (Some ''https://flix'')
     (Some ''ann'') (Some ''pw'') init) = Inr PNone"
  by (simp add: authenticate_def answering_def)

subsection \<open>What \<open>strptime\<close> reads from a padded timestamp\<close>







































text \<open>
  C9. When the request raises a \<^verbatim>\<open>RequestException\<close>, \<^verbatim>\<open>authenticate\<close> returns \<^verbatim>\<open>None\<close>
  and the instance is what it was before the call, in all its six attributes.
\<close>

theorem authenticate_failure_keeps_state:
  assumes "raise_for_status (post (h @ ''/authenticate'') (auth_header l p)) = Inl err"
  shows "fst (authenticate post (Some h) (Some l) (Some p) self) = Inr PNone \<and>
         fst (snd (authenticate post (Some h) (Some l) (Some p) self)) = self"
  using assms by (simp add: authenticate_def)

theorem authenticate_failure_keeps_state_witness:
  "raise_for_status (answering (PostRaises ''timed out'') (''https://other'' @ ''/authenticate'')
     (auth_header ''bob'' ''hunter2'')) = Inl (RequestException ''timed out'') \<and>
   fst (authenticate (answering (PostRaises ''timed out'')) (Some ''https://other'')
     (Some ''bob'') (Some ''hunter2'') sample_session) = Inr PNone \<and>
   fst (snd (authenticate (answering (PostRaises ''timed out'')) (Some ''https://other'')
     (Some ''bob'') (Some ''hunter2'') sample_session)) = sample_session"
proof -
  have failing: "raise_for_status (answering (PostRaises ''timed out'')
      (''https://other'' @ ''/authenticate'') (auth_header ''bob'' ''hunter2''))
      = Inl (RequestException ''timed out'')"
    by (simp add: answering_def)
  show ?thesis
    using failing authenticate_failure_keeps_state [of "answering (PostRaises ''timed out'')"
        "''https://other''" "''bob''" "''hunter2''" "RequestException ''timed out''"
        sample_session]
    by simp
qed

section \<open>Properties of the token\<close>









section \<open>The token attributes as a unit\<close>

lemma token_unit_identity [simp]:
  "token_unit (self\<lparr>hostname := a, login := b, password := c\<rparr>) = token_unit self"
  by (simp add: token_unit_def token_present_def token_absent_def)

lemma store_token_outcome:
  assumes "token_unit self"
    and "case getitem response ''id'' of Inl e \<Rightarrow> True | Inr k \<Rightarrow> complete_token response"
  shows "case store_token response self evs of
           (Inl e, s1, evs1) \<Rightarrow> token_unit s1
         | (Inr tok, s1, evs1) \<Rightarrow> tok = response \<and> complete_token tok \<and> token_present s1"
  using assms
  by (auto simp: store_token_def complete_token_def token_present_def Let_def
           split: sum.splits)

lemma authenticate_outcome:
  assumes "token_unit self" and "sound_reply reply"
  shows "case authenticate (answering reply) h l p self of
           (Inl e, s1, evs) \<Rightarrow> token_unit s1
         | (Inr tok, s1, evs) \<Rightarrow>
             (tok = PNone \<and> s1 = self) \<or> (complete_token tok \<and> token_present s1)"
proof (cases "l = None \<or> p = None \<or> h = None")
  case True
  with assms(1) show ?thesis
    by (auto simp: authenticate_def Let_def split: option.splits)
next
  case False
  then obtain l' p' h' where args: "l = Some l'" "p = Some p'" "h = Some h'" by auto
  show ?thesis
  proof (cases "raise_for_status reply")
    case (Inl err)
    with args show ?thesis by (simp add: authenticate_def answering_def)
  next
    case (Inr body)
    show ?thesis
    proof (cases body)
      case None
      with Inr args assms(1) show ?thesis by (simp add: authenticate_def answering_def)
    next
      case (Some response)
      with Inr assms(2)
      have ok: "case getitem response ''id'' of Inl e \<Rightarrow> True
                | Inr k \<Rightarrow> complete_token response"
        by (simp add: sound_reply_def)
      have unit: "token_unit (self\<lparr>hostname := Some h', login := Some l', password := Some p'\<rparr>)"
        using assms(1) by simp
      from store_token_outcome [OF unit ok,
          of "[Posted (h' @ ''/authenticate'') (auth_header l' p')]"]
      have "case store_token response
                   (self\<lparr>hostname := Some h', login := Some l', password := Some p'\<rparr>)
                   [Posted (h' @ ''/authenticate'') (auth_header l' p')] of
              (Inl e, s1, evs1) \<Rightarrow> token_unit s1
            | (Inr tok, s1, evs1) \<Rightarrow>
                (tok = PNone \<and> s1 = self) \<or> (complete_token tok \<and> token_present s1)"
        by (auto split: prod.splits sum.splits)
      with Inr Some args show ?thesis by (simp add: authenticate_def answering_def)
    qed
  qed
qed

lemma get_token_unit:
  assumes "token_unit self" and "sound_reply reply"
  shows "token_unit (fst (snd (get_token (answering reply) now self)))"
proof (cases "needs_refresh now self")
  case False
  with assms show ?thesis by (simp add: get_token_def)
next
  case True
  obtain r s1 evs where a:
    "authenticate (answering reply) (hostname self) (login self) (password self) self = (r, s1, evs)"
    by (cases "authenticate (answering reply) (hostname self) (login self) (password self) self") auto
  from authenticate_outcome [OF assms, of "hostname self" "login self" "password self"] a
  have o: "case r of Inl e \<Rightarrow> token_unit s1
             | Inr tok \<Rightarrow> (tok = PNone \<and> s1 = self) \<or> (complete_token tok \<and> token_present s1)"
    by (cases r) simp_all
  have "token_unit (fst (snd (refresh (answering reply) self)))"
  proof (cases r)
    case (Inl e)
    with a o show ?thesis by (simp add: refresh_def)
  next
    case (Inr tok)
    with o consider "tok = PNone" "s1 = self" | "complete_token tok" "token_present s1" by auto
    then show ?thesis
    proof cases
      case 1
      with a Inr assms show ?thesis by (simp add: refresh_def)
    next
      case 2
      with a Inr show ?thesis
        by (auto simp: refresh_def complete_token_def token_unit_def token_present_def Let_def
                 split: sum.splits)
    qed
  qed
  with True show ?thesis
    by (cases "refresh (answering reply) self"; cases "fst (refresh (answering reply) self)")
       (auto simp: get_token_def)
qed

lemma exec_unit: "token_unit self \<Longrightarrow> sound_call c \<Longrightarrow> token_unit (exec self c)"
proof (cases c)
  case (Authenticate h l p reply)
  assume "token_unit self" "sound_call c"
  with Authenticate authenticate_outcome [of self reply "Some h" "Some l" "Some p"]
  show ?thesis
    by (auto simp: token_unit_def split: prod.splits sum.splits)
next
  case (GetToken now reply)
  assume "token_unit self" "sound_call c"
  with GetToken show ?thesis by (simp add: get_token_unit)
next
  case Reset
  then show ?thesis by (simp add: reset_def token_unit_def token_absent_def)
qed

lemma foldl_exec_unit:
  "token_unit self \<Longrightarrow> \<forall>c\<in>set calls. sound_call c \<Longrightarrow> token_unit (foldl exec self calls)"
  by (induction calls arbitrary: self) (simp_all add: exec_unit)

text \<open>
  C7, as the code has it. \<^verbatim>\<open>authenticate\<close> assigns \<^verbatim>\<open>key\<close>, \<^verbatim>\<open>secret\<close> and \<^verbatim>\<open>expiry\<close> one
  after the other from the response, without looking at what it got. After any sequence
  of calls, starting from a new instance, the three are all set or all \<^verbatim>\<open>None\<close>, provided
  every answer of the server is sound: a failure, a body without \<^verbatim>\<open>id\<close>, or a complete
  token.
\<close>

theorem run_token_unit:
  assumes "\<forall>c\<in>set calls. sound_call c"
  shows "token_unit (run calls)"
  unfolding run_def using assms
  by (intro foldl_exec_unit) (simp_all add: init_def token_unit_def token_absent_def)

theorem run_token_unit_witness:
  "sound_call (Authenticate ''https://flix'' ''ann'' ''pw'' (PostReturns 200 (Some sample_token))) \<and>
   sound_call (GetToken (ten_oclock - timedelta_hours 1) (PostRaises ''timed out'')) \<and>
   sound_call Reset \<and>
   sound_call (Authenticate ''https://flix'' ''ann'' ''pw'' (PostReturns 401 None)) \<and>
   token_unit (run [Authenticate ''https://flix'' ''ann'' ''pw''
                      (PostReturns 200 (Some sample_token)),
                    GetToken (ten_oclock - timedelta_hours 1) (PostRaises ''timed out''),
                    Reset,
                    Authenticate ''https://flix'' ''ann'' ''pw'' (PostReturns 401 None)])"
  using run_token_unit [of "[Authenticate ''https://flix'' ''ann'' ''pw''
                      (PostReturns 200 (Some sample_token)),
                    GetToken (ten_oclock - timedelta_hours 1) (PostRaises ''timed out''),
                    Reset,
                    Authenticate ''https://flix'' ''ann'' ''pw'' (PostReturns 401 None)]"]
  by (simp add: sound_reply_def complete_token_def sample_token_def strptime_ten
        first_piece_def)

text \<open>
  C7, as the claim states it, fails. A response without \<^verbatim>\<open>expiry_date\<close> leaves the key and
  the secret set and the expiry \<^verbatim>\<open>None\<close> (the call ends in \<^verbatim>\<open>KeyError\<close> after two
  assignments); a response whose \<^verbatim>\<open>id\<close> is \<^verbatim>\<open>null\<close> leaves the key \<^verbatim>\<open>None\<close> and the other
  two set, and the call returns normally.
\<close>

theorem run_token_unit_counterexample:
  "\<not> token_unit (run [Authenticate ''https://flix'' ''ann'' ''pw''
       (PostReturns 200 (Some (PDict [(PStr ''id'', PStr ''AKID''),
                                      (PStr ''secret_access_key'', PStr ''s3cret'')])))]) \<and>
   \<not> token_unit (run [Authenticate ''https://flix'' ''ann'' ''pw''
       (PostReturns 200 (Some (PDict [(PStr ''id'', PNone),
                                      (PStr ''secret_access_key'', PStr ''s3cret''),
                                      (PStr ''expiry_date'', PStr ''2024-01-01T10:00:00'')])))])"
  by (simp add: run_def init_def authenticate_def store_token_def answering_def strptime_ten
        first_piece_def token_unit_def token_present_def token_absent_def)

end
